theory Spec2Isabelle
  imports Main "HOL-Library.Sublist"
begin

section \<open>Shared types\<close>

text \<open>
  A Go \<^verbatim>\<open>error\<close> is modelled by its message; \<^verbatim>\<open>nil\<close> is \<open>None\<close>.
  A \<^verbatim>\<open>time.Time\<close> is an instant on the integer time line, so that
  \<^verbatim>\<open>t.Before(u)\<close> is \<open>t < u\<close>. Go's \<^verbatim>\<open>int\<close> is modelled by \<open>int\<close>: the only
  arithmetic on it below is the counter of \<^verbatim>\<open>AssignID\<close>, which never passes the number
  of builds it is given (lemma \<open>first_free_le\<close>).
\<close>

type_synonym error = string
type_synonym time = int
type_synonym ExecutorData = nat

datatype signal = SIGQUIT | SIGTERM | Interrupt | Kill

record RunnerConfig =
  URL :: string
  Token :: string
  Executor :: string
  Limit :: int

record parsed_url =
  Host :: string
  Path :: string

text \<open>
  Functions the modelled code calls whose bodies are not in the sources: Go's standard
  library (\<^verbatim>\<open>url.Parse\<close>, \<^verbatim>\<open>filepath.Clean\<close>, \<^verbatim>\<open>filepath.Join\<close>,
  \<^verbatim>\<open>strings.TrimSpace\<close>, the \<^verbatim>\<open>%v\<close> rendering of a signal), and the repository's
  \<^verbatim>\<open>RunnerConfig.ShortDescription\<close>, \<^verbatim>\<open>RunnerConfig.UniqueID\<close> and
  \<^verbatim>\<open>helpers.ToSlash\<close>. They are parameters: every theorem holds for all of them.
\<close>

record externals =
  url_Parse :: "string \<Rightarrow> error + parsed_url"
  filepath_Clean :: "string \<Rightarrow> string"
  filepath_Join :: "string list \<Rightarrow> string"
  TrimSpace :: "string \<Rightarrow> string"
  Signal_String :: "signal \<Rightarrow> string"
  ShortDescription :: "RunnerConfig \<Rightarrow> string"
  UniqueID :: "RunnerConfig \<Rightarrow> string"
  ToSlash :: "string \<Rightarrow> string"

subsection \<open>String helpers of the standard library that are modelled in full\<close>

text \<open>\<^verbatim>\<open>strings.Contains(s, sub)\<close>: some suffix of \<open>s\<close> starts with \<open>sub\<close>.\<close>

fun Contains :: "string \<Rightarrow> string \<Rightarrow> bool" where
  "Contains [] sub = (sub = [])"
| "Contains (c # cs) sub = (if prefix sub (c # cs) then True else Contains cs sub)"

text \<open>\<^verbatim>\<open>strings.TrimSuffix(s, suf)\<close>.\<close>

definition TrimSuffix :: "string \<Rightarrow> string \<Rightarrow> string" where
  "TrimSuffix s suf = (if suffix suf s then take (length s - length suf) s else s)"

text \<open>\<^verbatim>\<open>strings.Split(s, "\n")\<close>: always at least one piece.\<close>

fun Split_newline :: "string \<Rightarrow> string list" where
  "Split_newline [] = [[]]"
| "Split_newline (c # cs) =
     (if c = CHR 0x0A then [] # Split_newline cs
      else (case Split_newline cs of l # ls \<Rightarrow> (c # l) # ls | [] \<Rightarrow> [[c]]))"

text \<open>The \<^verbatim>\<open>%d\<close> verb of \<^verbatim>\<open>fmt.Sprintf\<close>: decimal digits, with a sign when negative.\<close>

fun digits :: "nat \<Rightarrow> string" where
  "digits n =
     (if n < 10 then [''0123456789'' ! n]
      else digits (n div 10) @ [''0123456789'' ! (n mod 10)])"

declare digits.simps [simp del]

definition Sprintf_d :: "int \<Rightarrow> string" where
  "Sprintf_d n = (if n < 0 then CHR ''-'' # digits (nat (- n)) else digits (nat n))"

section \<open>common/build.go\<close>

record Build =
  ID :: int
  ProjectID :: int
  RepoURL :: string
  Commands :: string
  BuildDir :: string
  Runner :: RunnerConfig
  GlobalID :: int
  RunnerID :: int
  ProjectRunnerID :: int

subsection \<open>\<^verbatim>\<open>AssignID\<close>\<close>

text \<open>
  A \<^verbatim>\<open>map[int]bool\<close> is an association list, the newest entry first; reading a key
  that was never stored yields \<^verbatim>\<open>false\<close>, as in Go.
\<close>

type_synonym int_flags = "(int \<times> bool) list"

definition flag :: "int_flags \<Rightarrow> int \<Rightarrow> bool" where
  "flag m k = (case map_of m k of Some v \<Rightarrow> v | None \<Rightarrow> False)"

definition set_flag :: "int_flags \<Rightarrow> int \<Rightarrow> int_flags" where
  "set_flag m k = (k, True) # m"

text \<open>The first loop of \<^verbatim>\<open>AssignID\<close>, with its two \<^verbatim>\<open>continue\<close> statements.\<close>

fun collect_ids ::
  "externals \<Rightarrow> Build \<Rightarrow> Build list \<Rightarrow> int_flags \<times> int_flags \<times> int_flags
     \<Rightarrow> int_flags \<times> int_flags \<times> int_flags" where
  "collect_ids X b [] (globals, runners, projectRunners) = (globals, runners, projectRunners)"
| "collect_ids X b (otherBuild # rest) (globals, runners, projectRunners) =
     (let globals = set_flag globals (GlobalID otherBuild) in
      if ShortDescription X (Runner otherBuild) \<noteq> ShortDescription X (Runner b)
      then collect_ids X b rest (globals, runners, projectRunners)
      else
        let runners = set_flag runners (RunnerID otherBuild) in
        if ProjectID otherBuild \<noteq> ProjectID b
        then collect_ids X b rest (globals, runners, projectRunners)
        else
          let projectRunners = set_flag projectRunners (ProjectRunnerID otherBuild)
          in collect_ids X b rest (globals, runners, projectRunners))"

text \<open>
  Each of the three \<^verbatim>\<open>for i := 0; ; i++\<close> loops: it stops at the first \<open>i\<close> whose flag
  is not set. It terminates because the flagged keys are bounded by the largest stored key.
\<close>

function first_free :: "int_flags \<Rightarrow> int \<Rightarrow> int" where
  "first_free m i = (if flag m i then first_free m (i + 1) else i)"
  by pat_completeness auto
termination
proof (relation "measure (\<lambda>(m, i). nat (1 + Max (fst ` set m) - i))")
  show "wf (measure (\<lambda>(m, i). nat (1 + Max (fst ` set m) - i)))"
    by simp
next
  fix m :: int_flags and i :: int
  assume "flag m i"
  then have "i \<in> fst ` set m"
    by (auto simp: flag_def split: option.splits dest: map_of_SomeD intro: rev_image_eqI)
  then have "i \<le> Max (fst ` set m)"
    by simp
  then show "((m, i + 1), (m, i)) \<in> measure (\<lambda>(m, i). nat (1 + Max (fst ` set m) - i))"
    by simp
qed

declare first_free.simps [simp del]

definition AssignID :: "externals \<Rightarrow> Build \<Rightarrow> Build list \<Rightarrow> Build" where
  "AssignID X b otherBuilds =
     (case collect_ids X b otherBuilds ([], [], []) of
        (globals, runners, projectRunners) \<Rightarrow>
          b\<lparr>GlobalID := first_free globals 0,
            RunnerID := first_free runners 0,
            ProjectRunnerID := first_free projectRunners 0\<rparr>)"

text \<open>
  What the claim calls the smallest non-negative integer not already used in a scope,
  the scope being the set of identifiers in use.
\<close>

definition smallest_unused :: "int \<Rightarrow> int set \<Rightarrow> bool" where
  "smallest_unused n used \<longleftrightarrow> 0 \<le> n \<and> n \<notin> used \<and> (\<forall>j. 0 \<le> j \<and> j < n \<longrightarrow> j \<in> used)"

subsection \<open>\<^verbatim>\<open>ProjectSlug\<close> and \<^verbatim>\<open>ProjectUniqueDir\<close>\<close>

definition ProjectSlug :: "externals \<Rightarrow> Build \<Rightarrow> error + string" where
  "ProjectSlug X b =
     (case url_Parse X (RepoURL b) of
        Inl err \<Rightarrow> Inl err
      | Inr url \<Rightarrow>
          if Host url = [] then Inl ''only URI reference supported''
          else
            let slug = Path url;
                slug = TrimSuffix slug ''.git'';
                slug = filepath_Clean X slug
            in if slug = ''.'' then Inl ''invalid path''
               else if Contains slug ''..'' then Inl (''it doesn'' @ [CHR 0x27] @ ''t look like a valid path'')
               else Inr slug)"

definition ProjectUniqueDir :: "externals \<Rightarrow> Build \<Rightarrow> bool \<Rightarrow> string" where
  "ProjectUniqueDir X b sharedDir =
     (let dir = (case ProjectSlug X b of
                   Inl err \<Rightarrow> ''project-'' @ Sprintf_d (ProjectID b)
                 | Inr dir \<Rightarrow> dir)
      in if sharedDir
         then filepath_Join X [ShortDescription X (Runner b), Sprintf_d (ProjectRunnerID b), dir]
         else dir)"

subsection \<open>The executor protocol driven by \<^verbatim>\<open>Build.Run\<close>\<close>

text \<open>
  An executor is an interface value; what \<^verbatim>\<open>Run\<close> observes of it are the errors its
  three fallible methods return when they are called. The calls \<^verbatim>\<open>Run\<close> makes are
  recorded in order.
\<close>

record executor =
  Prepare :: "error option"
  Start :: "error option"
  Wait :: "error option"

datatype executor_call =
    CallPrepare
  | CallStart
  | CallWait
  | CallFinish "error option"
  | CallCleanup
  | CallWriteString string
  | CallSendBuildLog

text \<open>
  \<^verbatim>\<open>NewExecutor\<close> yields \<^verbatim>\<open>nil\<close> for an unknown executor kind; the result of the
  lookup is the first argument. The second argument is \<^verbatim>\<open>b.Runner.Executor\<close>.
\<close>

definition Run :: "executor option \<Rightarrow> string \<Rightarrow> error option \<times> executor_call list" where
  "Run found executor_kind =
     (case found of
        None \<Rightarrow>
          (Some ''executor not found'',
           [CallWriteString (''Executor not found: '' @ executor_kind), CallSendBuildLog])
      | Some ex \<Rightarrow>
          (let err = Prepare ex; calls = [CallPrepare];
               (err, calls) = (if err = None then (Start ex, calls @ [CallStart]) else (err, calls));
               (err, calls) = (if err = None then (Wait ex, calls @ [CallWait]) else (err, calls));
               calls = calls @ [CallFinish err];
               calls = calls @ [CallCleanup]
           in (err, calls)))"

text \<open>The first error among the three steps, as the claim words it.\<close>

definition first_error :: "executor \<Rightarrow> error option" where
  "first_error ex =
     (case Prepare ex of Some e \<Rightarrow> Some e
      | None \<Rightarrow> (case Start ex of Some e \<Rightarrow> Some e | None \<Rightarrow> Wait ex))"

section \<open>commands/multi.go\<close>

text \<open>
  Modelled from the spec: the \<^verbatim>\<open>ExecutorProvider\<close> interface is declared outside the
  sources; the spec gives it the capabilities \<^verbatim>\<open>Acquire\<close> (which may fail),
  \<^verbatim>\<open>Release\<close>, \<^verbatim>\<open>Create\<close> and the advisory check \<^verbatim>\<open>CanCreate\<close>. A provider is
  identified by the executor kind it is registered under; \<open>CanCreate\<close> and \<open>Acquire\<close>
  are what the two calls return when they are made.
\<close>

record ExecutorProvider =
  kind :: string
  CanCreate :: bool
  Acquire :: "error + ExecutorData"

text \<open>The embedded \<^verbatim>\<open>common.RunnerConfig\<close> of a \<^verbatim>\<open>runnerAcquire\<close> is the field
  \<open>runnerConfig\<close>.\<close>

record runnerAcquire =
  runnerConfig :: RunnerConfig
  provider :: ExecutorProvider
  data :: ExecutorData

text \<open>The calls on collaborators and the channel operations, recorded in order.\<close>

datatype event =
    ProviderAcquire ExecutorProvider RunnerConfig
  | ProviderRelease ExecutorProvider RunnerConfig ExecutorData
  | ChanSend runnerAcquire
  | LogWarning
  | BuildsAcquire
  | BuildsRelease
  | NetGetBuild RunnerConfig
  | MakeHealthy string bool
  | NetProcessBuild RunnerConfig int
  | TraceFail "error option"
  | AddBuild int
  | RemoveBuild int
  | BuildRun int
  | GoAbortAllBuilds

subsection \<open>\<^verbatim>\<open>feedRunner\<close>\<close>

text \<open>
  \<open>isHealthy\<close> is the answer of the health helper for a runner identity and
  \<open>GetExecutor\<close> the provider registry, \<open>None\<close> for \<^verbatim>\<open>nil\<close>. A send on the
  unbuffered channel is the event \<open>ChanSend\<close>.
\<close>

definition feedRunner ::
  "externals \<Rightarrow> (string \<Rightarrow> bool) \<Rightarrow> (string \<Rightarrow> ExecutorProvider option) \<Rightarrow> RunnerConfig
     \<Rightarrow> event list" where
  "feedRunner X isHealthy GetExecutor runner =
     (if \<not> isHealthy (UniqueID X runner) then []
      else
        case GetExecutor (Executor runner) of
          None \<Rightarrow> []
        | Some prov \<Rightarrow>
            (case Acquire prov of
               Inl err \<Rightarrow> [ProviderAcquire prov runner, LogWarning]
             | Inr d \<Rightarrow>
                 [ProviderAcquire prov runner,
                  ChanSend \<lparr>runnerConfig = runner, provider = prov, data = d\<rparr>]))"

text \<open>The inner loop of \<^verbatim>\<open>feedRunners\<close>: one pass over \<^verbatim>\<open>config.Runners\<close>.\<close>

fun feedRunners_pass ::
  "externals \<Rightarrow> (string \<Rightarrow> bool) \<Rightarrow> (string \<Rightarrow> ExecutorProvider option) \<Rightarrow> RunnerConfig list
     \<Rightarrow> event list" where
  "feedRunners_pass X isHealthy GetExecutor [] = []"
| "feedRunners_pass X isHealthy GetExecutor (runner # rest) =
     feedRunner X isHealthy GetExecutor runner @ feedRunners_pass X isHealthy GetExecutor rest"

subsection \<open>\<^verbatim>\<open>processRunner\<close>\<close>

text \<open>
  What the collaborators answer during one call: whether \<^verbatim>\<open>buildsHelper.acquire\<close>
  grants capacity, what \<^verbatim>\<open>network.GetBuild\<close> returns (the job's ID, or \<open>None\<close> for a
  \<^verbatim>\<open>nil\<close> job, and the health flag), and the error \<^verbatim>\<open>build.Run\<close> returns.
\<close>

record answers =
  acquire :: bool
  GetBuild :: "int option \<times> bool"
  run :: "error option"

text \<open>
  A \<^verbatim>\<open>defer\<close> statement evaluates the arguments of the deferred call when the statement
  executes and pushes the call; at return the pushed calls run last in, first out. The
  list \<open>deferred\<close> holds the pushed calls, the newest first, so returning appends it to
  the events. The named result \<open>err\<close> starts as \<^verbatim>\<open>nil\<close>.
\<close>

definition processRunner :: "externals \<Rightarrow> answers \<Rightarrow> runnerAcquire \<Rightarrow> error option \<times> event list" where
  "processRunner X env runner =
     (let err = None;
          deferred = [ProviderRelease (provider runner) (runnerConfig runner) (data runner)];
          events = [BuildsAcquire]
      in if \<not> acquire env then (err, events @ deferred)
         else
           let deferred = BuildsRelease # deferred;
               (buildData, healthy) = GetBuild env;
               events = events @ [NetGetBuild (runnerConfig runner),
                                  MakeHealthy (UniqueID X (runnerConfig runner)) healthy]
           in case buildData of
                None \<Rightarrow> (err, events @ deferred)
              | Some buildID \<Rightarrow>
                  let events = events @ [NetProcessBuild (runnerConfig runner) buildID];
                      deferred = TraceFail err # deferred;
                      events = events @ [AddBuild buildID];
                      deferred = RemoveBuild buildID # deferred;
                      events = events @ [BuildRun buildID];
                      err = run env
                  in (err, events @ deferred))"

subsection \<open>\<^verbatim>\<open>processRunners\<close>\<close>

text \<open>
  One worker. Each turn of its loop first reads \<^verbatim>\<open>mr.stopSignal\<close> and then blocks in
  the \<^verbatim>\<open>select\<close>; a \<open>turn\<close> says what the worker meets: the stop signal already set,
  a message on \<^verbatim>\<open>stopWorker\<close>, or a slot on \<^verbatim>\<open>runners\<close> (with the collaborators'
  answers for that job). The channel is unbuffered, so the slots the feeder has acquired
  and is sending, \<open>offered\<close>, stay with the feeder until the worker receives them. The
  result is the worker's events and the slots it never received. A worker that is given
  no further turn, or that waits for a slot when none is offered, stays blocked.
\<close>

datatype turn = StopSignalSet | StopWorker | Receive answers

fun processRunners ::
  "externals \<Rightarrow> runnerAcquire list \<Rightarrow> turn list \<Rightarrow> event list \<times> runnerAcquire list" where
  "processRunners X offered [] = ([], offered)"
| "processRunners X offered (StopSignalSet # turns) = ([], offered)"
| "processRunners X offered (StopWorker # turns) = ([], offered)"
| "processRunners X [] (Receive env # turns) = ([], [])"
| "processRunners X (runner # offered) (Receive env # turns) =
     (case processRunners X offered turns of
        (events, left) \<Rightarrow> (snd (processRunner X env runner) @ events, left))"

definition release_of :: "runnerAcquire \<Rightarrow> event" where
  "release_of runner = ProviderRelease (provider runner) (runnerConfig runner) (data runner)"

fun is_release :: "event \<Rightarrow> bool" where
  "is_release (ProviderRelease p r d) = True"
| "is_release e = False"

fun is_TraceFail :: "event \<Rightarrow> bool" where
  "is_TraceFail (TraceFail e) = True"
| "is_TraceFail e = False"

subsection \<open>\<^verbatim>\<open>loadConfig\<close> and \<^verbatim>\<open>checkConfig\<close>\<close>

record Config =
  ModTime :: time
  Concurrent :: int
  ConfigUser :: string

text \<open>
  The fields of \<^verbatim>\<open>RunCommand\<close> that configuration handling and shutdown touch.
  \<open>healthy\<close> is the health map, keyed by runner identity, with the time of failure.
\<close>

record RunCommand =
  config :: Config
  User :: string
  healthy :: "(string \<times> time) list"
  stopSignal :: "signal option"

text \<open>
  What configuration handling does that can be observed besides its result: the
  configuration file is read and parsed, and the two log lines of \<^verbatim>\<open>loadConfig\<close>
  (\<^verbatim>\<open>Config loaded:\<close>) and \<^verbatim>\<open>checkConfig\<close> (\<^verbatim>\<open>Failed to load config\<close>).
\<close>

datatype config_event = ReadConfigFile | LogConfigLoaded | LogFailedToLoad error

text \<open>
  Modelled from the spec: \<^verbatim>\<open>configOptions.loadConfig\<close> is outside the sources. By the
  spec it parses the file into a fresh structure and, if parsing fails, retains the prior
  configuration. \<open>parsed\<close> is the outcome of parsing the file.
\<close>

definition configOptions_loadConfig ::
  "error + Config \<Rightarrow> RunCommand \<Rightarrow> error option \<times> RunCommand \<times> config_event list" where
  "configOptions_loadConfig parsed mr =
     (case parsed of
        Inl err \<Rightarrow> (Some err, mr, [ReadConfigFile])
      | Inr fresh \<Rightarrow> (None, mr\<lparr>config := fresh\<rparr>, [ReadConfigFile]))"

definition loadConfig ::
  "error + Config \<Rightarrow> RunCommand \<Rightarrow> error option \<times> RunCommand \<times> config_event list" where
  "loadConfig parsed mr =
     (case configOptions_loadConfig parsed mr of
        (Some err, mr, events) \<Rightarrow> (Some err, mr, events)
      | (None, mr, events) \<Rightarrow>
          let mr = (if User mr \<noteq> [] then mr\<lparr>config := (config mr)\<lparr>ConfigUser := User mr\<rparr>\<rparr>
                    else mr);
              mr = mr\<lparr>healthy := []\<rparr>;
              events = events @ [LogConfigLoaded]
          in (None, mr, events))"

text \<open>
  \<open>stat\<close> is what \<^verbatim>\<open>os.Stat(mr.ConfigFile)\<close> returns: an error or the file's
  modification time.
\<close>

definition checkConfig ::
  "error + time \<Rightarrow> error + Config \<Rightarrow> RunCommand
     \<Rightarrow> error option \<times> RunCommand \<times> config_event list" where
  "checkConfig stat parsed mr =
     (case stat of
        Inl err \<Rightarrow> (Some err, mr, [])
      | Inr info_ModTime \<Rightarrow>
          if \<not> ModTime (config mr) < info_ModTime then (None, mr, [])
          else
            case loadConfig parsed mr of
              (Some err, mr, events) \<Rightarrow>
                (let events = events @ [LogFailedToLoad err];
                     mr = mr\<lparr>config := (config mr)\<lparr>ModTime := info_ModTime\<rparr>\<rparr>
                 in (Some err, mr, events))
            | (None, mr, events) \<Rightarrow> (None, mr, events))"

subsection \<open>\<^verbatim>\<open>handleShutdown\<close>\<close>

text \<open>
  The \<^verbatim>\<open>select\<close> of \<^verbatim>\<open>handleShutdown\<close> takes one of three cases; every case returns,
  so the surrounding \<^verbatim>\<open>for\<close> runs once. \<open>ready\<close> is the case taken.
\<close>

datatype shutdown_case = StopSignals signal | TimeAfter | RunFinished

definition handleShutdown ::
  "externals \<Rightarrow> shutdown_case \<Rightarrow> RunCommand \<Rightarrow> error option \<times> RunCommand \<times> event list" where
  "handleShutdown X ready mr =
     (let events = [GoAbortAllBuilds]
      in case ready of
           StopSignals s \<Rightarrow>
             (let mr = mr\<lparr>stopSignal := Some s\<rparr>
              in (Some (''forced exit: '' @ Signal_String X s), mr, events))
         | TimeAfter \<Rightarrow> (Some ''shutdown timedout'', mr, events)
         | RunFinished \<Rightarrow> (None, mr, events))"

section \<open>commands/helpers/archive.go\<close>

record FileInfo =
  modTime :: time
  size :: int
  isRegular :: bool

text \<open>
  \<open>files\<close> is the map \<^verbatim>\<open>c.files\<close> from path to file information, as an association
  list with one entry per path. The field \<^verbatim>\<open>List\<close> is \<open>ListFlag\<close> here.
\<close>

record ArchiveCommand =
  Paths :: "string list"
  Untracked :: bool
  File :: string
  Verbose :: bool
  ListFlag :: bool
  NoProgress :: bool
  files :: "(string \<times> FileInfo) list"

definition isChanged :: "ArchiveCommand \<Rightarrow> time \<Rightarrow> bool" where
  "isChanged c archiveTime = list_ex (\<lambda>(path, info). archiveTime < modTime info) (files c)"

definition isTarArchive :: "string \<Rightarrow> bool" where
  "isTarArchive fileName = (if suffix ''.tgz'' fileName \<or> suffix ''.tar.gz'' fileName then True else False)"

definition isZipArchive :: "string \<Rightarrow> bool" where
  "isZipArchive fileName = (if suffix ''.zip'' fileName then True else False)"

text \<open>
  The error of \<^verbatim>\<open>createArchive\<close>: the file name has no supported extension, or the
  \<^verbatim>\<open>tar\<close> command or the zip writer failed.
\<close>

datatype create_error = UnsupportedFormat string | ArchiverFailed error

text \<open>
  What \<^verbatim>\<open>Execute\<close> does, in order. The \<open>Fatal\<close> actions are the calls of
  \<^verbatim>\<open>logrus.Fatalln\<close>, which end the process at once (deferred calls do not run).
  \<open>PrintFiles\<close> is the listing of \<^verbatim>\<open>listFiles\<close>. \<open>WriteTar\<close> and \<open>WriteZip\<close>
  write the archive into the temporary file; \<open>Renamed\<close> is the successful
  \<^verbatim>\<open>os.Rename\<close> that puts it in the place of \<^verbatim>\<open>c.File\<close>.
\<close>

datatype archive_action =
    FatalGetwd error
  | FatalMissingName
  | FatalVerify error
  | FatalTempFile error
  | FatalCreateArchive create_error
  | LogUpToDate
  | LogNoFiles
  | LogCreating
  | LogDone
  | PrintFiles
  | MkdirAll
  | WriteTar
  | WriteZip
  | CloseTemp
  | Renamed
  | WarnRename error
  | RemoveTemp

text \<open>
  What the file system answers inside \<^verbatim>\<open>archive\<close>: the result of
  \<^verbatim>\<open>ioutil.TempFile\<close>, the error of running \<^verbatim>\<open>tar\<close> or of writing the zip file, and
  the error of \<^verbatim>\<open>os.Rename\<close>.
\<close>

record archive_answers =
  TempFile :: "error + string"
  archiver :: "error option"
  Rename :: "error option"

definition listFiles :: "ArchiveCommand \<Rightarrow> archive_action list" where
  "listFiles c = (if length (files c) = 0 then [LogNoFiles] else [PrintFiles])"

definition createArchive ::
  "ArchiveCommand \<Rightarrow> archive_answers \<Rightarrow> create_error option \<times> archive_action list" where
  "createArchive c fs =
     (if isTarArchive (File c) then (map_option ArchiverFailed (archiver fs), [WriteTar])
      else if isZipArchive (File c) then (map_option ArchiverFailed (archiver fs), [WriteZip])
      else (Some (UnsupportedFormat (File c)), []))"

definition archive :: "ArchiveCommand \<Rightarrow> archive_answers \<Rightarrow> archive_action list" where
  "archive c fs =
     (if length (files c) = 0 then [LogNoFiles]
      else
        let actions = (if NoProgress c then [LogCreating] else []);
            actions = actions @ [MkdirAll]
        in case TempFile fs of
             Inl err \<Rightarrow> actions @ [FatalTempFile err]
           | Inr tempName \<Rightarrow>
               let deferred = [RemoveTemp, CloseTemp]
               in case createArchive c fs of
                    (Some err, written) \<Rightarrow> actions @ written @ [FatalCreateArchive err]
                  | (None, written) \<Rightarrow>
                      let actions = actions @ written @ [CloseTemp];
                          actions = actions @ (case Rename fs of
                                                 Some err \<Rightarrow> [WarnRename err]
                                               | None \<Rightarrow> [Renamed]);
                          actions = actions @ (if NoProgress c then [LogDone] else [])
                      in actions @ deferred)"

text \<open>
  \<open>getwd\<close> is the result of \<^verbatim>\<open>os.Getwd\<close>; \<open>collected\<close> is the map that
  \<^verbatim>\<open>processPaths\<close> and \<^verbatim>\<open>processUntracked\<close> build by walking the file system;
  \<open>stat\<close> is the result of \<^verbatim>\<open>os.Stat(c.File)\<close>.
\<close>

datatype stat_result = Exists FileInfo | NotExist | StatError error

definition Execute ::
  "ArchiveCommand \<Rightarrow> error + string \<Rightarrow> (string \<times> FileInfo) list \<Rightarrow> stat_result
     \<Rightarrow> archive_answers \<Rightarrow> archive_action list" where
  "Execute c getwd collected stat fs =
     (let c = (if Verbose c then c\<lparr>ListFlag := False, NoProgress := True\<rparr> else c);
          c = (if ListFlag c then c\<lparr>NoProgress := True\<rparr> else c)
      in case getwd of
           Inl err \<Rightarrow> [FatalGetwd err]
         | Inr wd \<Rightarrow>
             if File c = [] \<and> \<not> ListFlag c then [FatalMissingName]
             else
               let c = c\<lparr>files := collected\<rparr>
               in case stat of
                    StatError err \<Rightarrow> [FatalVerify err]
                  | Exists ai \<Rightarrow>
                      if \<not> isChanged c (modTime ai) then [LogUpToDate]
                      else if ListFlag c then listFiles c else archive c fs
                  | NotExist \<Rightarrow> if ListFlag c then listFiles c else archive c fs)"

section \<open>shells/abstract.go\<close>

text \<open>
  A \<^verbatim>\<open>common.BuildVariable\<close>, with the fields \<^verbatim>\<open>writeTLSCAInfo\<close> sets (the field
  \<^verbatim>\<open>File\<close> is \<open>File'\<close> here, the name being taken by the archive command).
\<close>

record BuildVariable =
  Key :: string
  Value :: string
  Public :: bool
  Internal :: bool
  File' :: bool

text \<open>The calls on the \<^verbatim>\<open>ShellWriter\<close>, in order; a writer is the list of calls made.\<close>

datatype shell_call =
    Variable BuildVariable
  | Cd string
  | Notice string "string list"
  | EmptyLine
  | Line string
  | CheckForErrors

fun writeExports :: "shell_call list \<Rightarrow> BuildVariable list \<Rightarrow> shell_call list" where
  "writeExports w [] = w"
| "writeExports w (variable # rest) = writeExports (w @ [Variable variable]) rest"

definition FullProjectDir :: "externals \<Rightarrow> Build \<Rightarrow> string" where
  "FullProjectDir X b = ToSlash X (BuildDir b)"

definition writeCdBuildDir :: "externals \<Rightarrow> shell_call list \<Rightarrow> Build \<Rightarrow> shell_call list" where
  "writeCdBuildDir X w build = w @ [Cd (FullProjectDir X build)]"

text \<open>The body of the loop over the lines of the script, and the loop.\<close>

fun write_lines :: "externals \<Rightarrow> shell_call list \<Rightarrow> string list \<Rightarrow> shell_call list" where
  "write_lines X w [] = w"
| "write_lines X w (command # rest) =
     (let command = TrimSpace X command;
          w = (if command \<noteq> [] then w @ [Notice ''$ %s'' [command]] else w @ [EmptyLine]);
          w = w @ [Line command];
          w = w @ [CheckForErrors]
      in write_lines X w rest)"

text \<open>
  \<open>variables\<close> is the result of \<^verbatim>\<open>build.GetAllVariables()\<close>, whose expansion of
  variables is outside the sources.
\<close>

definition GenerateCommands ::
  "externals \<Rightarrow> BuildVariable list \<Rightarrow> shell_call list \<Rightarrow> Build \<Rightarrow> shell_call list" where
  "GenerateCommands X variables w build =
     (let w = writeExports w variables;
          w = writeCdBuildDir X w build;
          commands = Commands build;
          commands = TrimSpace X commands
      in write_lines X w (Split_newline commands))"

text \<open>The calls one line of the script gives rise to, as the claim describes them.\<close>

definition line_block :: "externals \<Rightarrow> string \<Rightarrow> shell_call list" where
  "line_block X l =
     [if TrimSpace X l \<noteq> [] then Notice ''$ %s'' [TrimSpace X l] else EmptyLine,
      Line (TrimSpace X l), CheckForErrors]"

text \<open>Every \<open>Line\<close> call is directly followed by one \<open>CheckForErrors\<close>, and no
  \<open>CheckForErrors\<close> occurs elsewhere.\<close>

fun checked_lines :: "shell_call list \<Rightarrow> bool" where
  "checked_lines [] = True"
| "checked_lines (Line l # CheckForErrors # rest) = checked_lines rest"
| "checked_lines (Line l # rest) = False"
| "checked_lines (CheckForErrors # rest) = False"
| "checked_lines (c # rest) = checked_lines rest"

section \<open>Predicates of the properties and sample inputs\<close>

text \<open>When the claim says \<^verbatim>\<open>ProjectSlug\<close> must fail: the URL does not parse, its host is
  empty, or the cleaned path is \<^verbatim>\<open>.\<close> or still contains \<^verbatim>\<open>..\<close>.\<close>

definition slug_rejected :: "externals \<Rightarrow> Build \<Rightarrow> bool" where
  "slug_rejected X b =
     (case url_Parse X (RepoURL b) of
        Inl err \<Rightarrow> True
      | Inr url \<Rightarrow>
          Host url = [] \<or>
          filepath_Clean X (TrimSuffix (Path url) ''.git'') = ''.'' \<or>
          Contains (filepath_Clean X (TrimSuffix (Path url) ''.git'')) ''..'')"

fun is_Line :: "shell_call \<Rightarrow> bool" where
  "is_Line (Line l) = True"
| "is_Line c = False"

text \<open>
  Sample values for the examples. \<open>X0\<close> gives the external functions on the sample
  inputs: two repository URLs as \<^verbatim>\<open>url.Parse\<close> splits them, \<^verbatim>\<open>filepath.Clean\<close> on
  paths that are already clean, \<^verbatim>\<open>strings.TrimSpace\<close> on ASCII text, and the names Go
  prints for the four signals.
\<close>

definition trim_ascii :: "string \<Rightarrow> string" where
  "trim_ascii s =
     (let sp = (\<lambda>c. c \<in> set [CHR 0x09, CHR 0x0A, CHR 0x0B, CHR 0x0C, CHR 0x0D, CHR 0x20])
      in rev (dropWhile sp (rev (dropWhile sp s))))"

definition X0 :: externals where
  "X0 = \<lparr>url_Parse = (\<lambda>s. if s = ''https://gitlab.com/group/my..project.git''
                         then Inr \<lparr>Host = ''gitlab.com'', Path = ''/group/my..project.git''\<rparr>
                         else if s = ''https://gitlab.com/group/project.git''
                         then Inr \<lparr>Host = ''gitlab.com'', Path = ''/group/project.git''\<rparr>
                         else Inl ''parse error''),
          filepath_Clean = (\<lambda>s. s),
          filepath_Join = (\<lambda>ps. foldr (\<lambda>p joined. if joined = [] then p else p @ CHR ''/'' # joined) ps []),
          TrimSpace = trim_ascii,
          Signal_String = (\<lambda>s. case s of SIGQUIT \<Rightarrow> ''quit'' | SIGTERM \<Rightarrow> ''terminated''
                                        | Interrupt \<Rightarrow> ''interrupt'' | Kill \<Rightarrow> ''killed''),
          ShortDescription = (\<lambda>r. take 8 (Token r)),
          UniqueID = (\<lambda>r. URL r @ Token r),
          ToSlash = map (\<lambda>c. if c = CHR 0x5C then CHR ''/'' else c)\<rparr>"

definition runner0 :: RunnerConfig where
  "runner0 = \<lparr>URL = ''https://gitlab.com/ci'', Token = ''0123456789abcdef'',
               Executor = ''docker'', Limit = 0\<rparr>"

definition runner1 :: RunnerConfig where
  "runner1 = \<lparr>URL = ''https://gitlab.com/ci'', Token = ''fedcba9876543210'',
               Executor = ''shell'', Limit = 0\<rparr>"

definition provider0 :: ExecutorProvider where
  "provider0 = \<lparr>kind = ''docker'', CanCreate = True, Acquire = Inr 1\<rparr>"

definition exhausted0 :: ExecutorProvider where
  "exhausted0 = \<lparr>kind = ''docker'', CanCreate = False, Acquire = Inr 2\<rparr>"

definition slot0 :: runnerAcquire where
  "slot0 = \<lparr>runnerConfig = runner0, provider = provider0, data = 1\<rparr>"

definition build0 :: Build where
  "build0 = \<lparr>ID = 7, ProjectID = 42, RepoURL = ''https://gitlab.com/group/my..project.git'',
              Commands = ''make'', BuildDir = ''/builds/group/project'', Runner = runner0,
              GlobalID = 0, RunnerID = 0, ProjectRunnerID = 0\<rparr>"

definition others0 :: "Build list" where
  "others0 = [build0, build0\<lparr>ID := 8, Runner := runner1, GlobalID := 1\<rparr>]"

definition mr0 :: RunCommand where
  "mr0 = \<lparr>config = \<lparr>ModTime = 10, Concurrent = 2, ConfigUser = []\<rparr>, User = [],
           healthy = [], stopSignal = Some SIGTERM\<rparr>"

definition job_fails :: answers where
  "job_fails = \<lparr>acquire = True, GetBuild = (Some 7, True), run = Some ''exit status 1''\<rparr>"

definition idle :: answers where
  "idle = \<lparr>acquire = True, GetBuild = (None, True), run = None\<rparr>"

definition variable0 :: BuildVariable where
  "variable0 = \<lparr>Key = ''CI'', Value = ''true'', Public = True, Internal = True, File' = False\<rparr>"

definition fs_ok :: archive_answers where
  "fs_ok = \<lparr>TempFile = Inr ''archive_123'', archiver = None, Rename = None\<rparr>"

definition newer_files :: "(string \<times> FileInfo) list" where
  "newer_files = [(''vendor/a'', \<lparr>modTime = 50, size = 1, isRegular = True\<rparr>),
                  (''vendor/b'', \<lparr>modTime = 150, size = 1, isRegular = True\<rparr>)]"

definition old_archive :: FileInfo where
  "old_archive = \<lparr>modTime = 100, size = 9, isRegular = True\<rparr>"

definition archive0 :: ArchiveCommand where
  "archive0 = \<lparr>Paths = [''vendor''], Untracked = False, File = ''cache.tgz'', Verbose = False,
                ListFlag = False, NoProgress = False, files = []\<rparr>"

section \<open>Properties\<close>

subsection \<open>Auxiliary facts\<close>

lemma flag_set_flag: "flag (set_flag m k) j \<longleftrightarrow> j = k \<or> flag m j"
  by (simp add: flag_def set_flag_def)

lemma flag_Nil: "\<not> flag [] j"
  by (simp add: flag_def)

lemma flag_keys: "flag m k \<Longrightarrow> k \<in> fst ` set m"
  by (auto simp: flag_def split: option.splits dest: map_of_SomeD intro: rev_image_eqI)

lemma first_free_spec:
  "i \<le> first_free m i \<and> \<not> flag m (first_free m i) \<and>
   (\<forall>j. i \<le> j \<and> j < first_free m i \<longrightarrow> flag m j)"
proof (induction m i rule: first_free.induct)
  case (1 m i)
  show ?case
  proof (cases "flag m i")
    case True
    with 1 have ih: "i + 1 \<le> first_free m (i + 1)" "\<not> flag m (first_free m (i + 1))"
      "\<forall>j. i + 1 \<le> j \<and> j < first_free m (i + 1) \<longrightarrow> flag m j"
      by auto
    have eq: "first_free m i = first_free m (i + 1)"
      using True by (subst first_free.simps) simp
    have "\<forall>j. i \<le> j \<and> j < first_free m (i + 1) \<longrightarrow> flag m j"
    proof (intro allI impI)
      fix j assume "i \<le> j \<and> j < first_free m (i + 1)"
      then show "flag m j" using True ih(3) by (cases "j = i") auto
    qed
    with ih eq show ?thesis by simp
  next
    case False
    then have "first_free m i = i"
      by (subst first_free.simps) simp
    with False show ?thesis by auto
  qed
qed

lemma first_free_smallest_unused: "smallest_unused (first_free m 0) {k. flag m k}"
  using first_free_spec[of 0 m] by (simp add: smallest_unused_def)

text \<open>The counter never passes the number of stored entries, far below \<open>2 ^ 63\<close>.\<close>

lemma first_free_le: "first_free m 0 \<le> int (length m)"
proof -
  let ?n = "first_free m 0"
  have "{0..<?n} \<subseteq> fst ` set m"
    using first_free_spec[of 0 m] by (auto intro: flag_keys)
  then have "card {0..<?n} \<le> card (fst ` set m)"
    by (intro card_mono) auto
  also have "\<dots> \<le> length m"
    by (metis card_image_le card_length le_trans List.finite_set)
  finally show ?thesis by simp
qed

lemma collect_ids_flags:
  "collect_ids X b others (g, r, p) = (g', r', p') \<Longrightarrow>
     (\<forall>k. flag g' k \<longleftrightarrow> flag g k \<or> k \<in> GlobalID ` set others) \<and>
     (\<forall>k. flag r' k \<longleftrightarrow> flag r k \<or>
        k \<in> RunnerID ` {ob \<in> set others.
               ShortDescription X (Runner ob) = ShortDescription X (Runner b)}) \<and>
     (\<forall>k. flag p' k \<longleftrightarrow> flag p k \<or>
        k \<in> ProjectRunnerID ` {ob \<in> set others.
               ShortDescription X (Runner ob) = ShortDescription X (Runner b)
               \<and> ProjectID ob = ProjectID b})"
proof (induction others arbitrary: g r p)
  case Nil
  then show ?case by simp
next
  case (Cons ob rest)
  show ?case
  proof (cases "ShortDescription X (Runner ob) \<noteq> ShortDescription X (Runner b)")
    case True
    with Cons.prems have "collect_ids X b rest (set_flag g (GlobalID ob), r, p) = (g', r', p')"
      by (simp add: Let_def)
    from Cons.IH[OF this] True show ?thesis
      by (auto simp: flag_set_flag)
  next
    case same: False
    show ?thesis
    proof (cases "ProjectID ob \<noteq> ProjectID b")
      case True
      with same Cons.prems
      have "collect_ids X b rest (set_flag g (GlobalID ob), set_flag r (RunnerID ob), p)
              = (g', r', p')"
        by (simp add: Let_def)
      from Cons.IH[OF this] same True show ?thesis
        by (auto simp: flag_set_flag)
    next
      case False
      with same Cons.prems
      have "collect_ids X b rest (set_flag g (GlobalID ob), set_flag r (RunnerID ob),
               set_flag p (ProjectRunnerID ob)) = (g', r', p')"
        by (simp add: Let_def)
      from Cons.IH[OF this] same False show ?thesis
        by (auto simp: flag_set_flag)
    qed
  qed
qed

lemma feedRunners_pass_eq:
  "feedRunners_pass X isHealthy GetExecutor runners
     = concat (map (feedRunner X isHealthy GetExecutor) runners)"
  by (induction runners) simp_all

lemma processRunner_release_once:
  "filter is_release (snd (processRunner X env runner)) = [release_of runner]"
  by (simp add: processRunner_def release_of_def Let_def split: prod.splits option.splits)

lemma processRunner_release_last:
  "last (snd (processRunner X env runner)) = release_of runner"
  by (simp add: processRunner_def release_of_def Let_def split: prod.splits option.splits)

lemma processRunners_left_suffix:
  "length (snd (processRunners X offered turns)) \<le> length offered \<and>
   take (length offered - length (snd (processRunners X offered turns))) offered
     @ snd (processRunners X offered turns) = offered"
  by (induction X offered turns rule: processRunners.induct)
     (auto split: prod.splits simp: Suc_diff_le)

lemma processRunners_releases:
  "filter is_release (fst (processRunners X offered turns)) =
     map release_of
       (take (length offered - length (snd (processRunners X offered turns))) offered)"
proof (induction X offered turns rule: processRunners.induct)
  case (5 X runner offered env turns)
  obtain events left where r: "processRunners X offered turns = (events, left)"
    by (cases "processRunners X offered turns") auto
  have "length left \<le> length offered"
    using processRunners_left_suffix[of X offered turns] r by simp
  with 5 r show ?case
    by (simp add: processRunner_release_once Suc_diff_le)
qed simp_all

lemma processRunner_TraceFail:
  "filter is_TraceFail (snd (processRunner X env runner)) =
     (if acquire env \<and> fst (GetBuild env) \<noteq> None then [TraceFail None] else [])"
  by (simp add: processRunner_def Let_def split: prod.splits option.splits)

lemma digits_chars: "set (digits n) \<subseteq> set ''0123456789''"
proof (induction n rule: digits.induct)
  case (1 n)
  have d: "\<And>k. k < 10 \<Longrightarrow> ''0123456789'' ! k \<in> set ''0123456789''"
    by (rule nth_mem) simp
  show ?case
  proof (cases "n < 10")
    case True
    then show ?thesis using d[of n] by (subst digits.simps) simp
  next
    case False
    have "n mod 10 < 10" by simp
    with False 1 d[of "n mod 10"] show ?thesis by (subst digits.simps) simp
  qed
qed

lemma Sprintf_d_no_dot: "CHR ''.'' \<notin> set (Sprintf_d n)"
  using digits_chars[of "nat n"] digits_chars[of "nat (- n)"]
  by (auto simp: Sprintf_d_def)

lemma Contains_first_char: "Contains s (c # sub) \<Longrightarrow> c \<in> set s"
  by (induction s) (auto simp: prefix_Cons split: if_splits)

lemma fallback_no_dotdot: "\<not> Contains (''project-'' @ Sprintf_d n) ''..''"
proof
  assume "Contains (''project-'' @ Sprintf_d n) ''..''"
  then have "CHR ''.'' \<in> set (''project-'' @ Sprintf_d n)"
    by (rule Contains_first_char)
  then show False using Sprintf_d_no_dot[of n] by simp
qed

lemma writeExports_eq: "writeExports w vs = w @ map Variable vs"
  by (induction vs arbitrary: w) simp_all

lemma write_lines_eq: "write_lines X w ls = w @ concat (map (line_block X) ls)"
  by (induction ls arbitrary: w) (simp_all add: line_block_def Let_def)

lemma checked_lines_Variable: "checked_lines (map Variable vs @ rest) = checked_lines rest"
  by (induction vs) simp_all

lemma checked_lines_blocks: "checked_lines (concat (map (line_block X) ls))"
  by (induction ls) (simp_all add: line_block_def)

lemma count_blocks:
  "length (filter is_Line (concat (map (line_block X) ls))) = length ls \<and>
   length (filter (\<lambda>c. c = CheckForErrors) (concat (map (line_block X) ls))) = length ls"
  by (induction ls) (simp_all add: line_block_def)

subsection \<open>Slots and their release (C1)\<close>

text \<open>
  C1, as amended. Every slot a worker receives is released exactly once: on every exit
  path of \<^verbatim>\<open>processRunner\<close> (whatever the collaborators answer) the events contain
  exactly one release, that of the slot, and it is the last event before the return.
  Over the worker's loop, the releases are those of the slots the worker received, one
  each and in order; the slots it did not receive stay with the feeder and are not
  released by the worker.
\<close>

theorem processRunners_release_received:
  "filter is_release (snd (processRunner X env runner)) = [release_of runner] \<and>
   last (snd (processRunner X env runner)) = release_of runner \<and>
   filter is_release (fst (processRunners X offered turns)) =
     map release_of
       (take (length offered - length (snd (processRunners X offered turns))) offered) \<and>
   take (length offered - length (snd (processRunners X offered turns))) offered
     @ snd (processRunners X offered turns) = offered"
  using processRunner_release_once processRunner_release_last processRunners_releases
    processRunners_left_suffix
  by blast

text \<open>
  Example for C1: the feeder offers two slots; the worker receives the first, finds no
  job, and is then stopped. One release, of the first slot; the second is left.
\<close>

theorem processRunners_release_received_witness:
  "filter is_release (fst (processRunners X0 [slot0, slot0\<lparr>data := 5\<rparr>] [Receive idle, StopWorker]))
     = [release_of slot0] \<and>
   snd (processRunners X0 [slot0, slot0\<lparr>data := 5\<rparr>] [Receive idle, StopWorker])
     = [slot0\<lparr>data := 5\<rparr>]"
  using processRunners_release_received
          [of X0 idle slot0 "[slot0, slot0\<lparr>data := 5\<rparr>]" "[Receive idle, StopWorker]"]
  by (simp add: processRunner_def idle_def release_of_def)

text \<open>
  Counterexample to C1 as stated (released exactly once also when the worker is cancelled
  before consuming the slot): the feeder has acquired a slot and is sending it, the
  worker is stopped before it receives; the worker releases nothing and the slot is left.
\<close>

theorem processRunners_unreceived_slot_counterexample:
  "ChanSend slot0 \<in> set (feedRunner X0 (\<lambda>id. True) (\<lambda>k. Some provider0) runner0) \<and>
   filter is_release (fst (processRunners X0 [slot0] [StopWorker])) \<noteq> [release_of slot0] \<and>
   processRunners X0 [slot0] [StopWorker] = ([], [slot0])"
  by (simp add: feedRunner_def provider0_def slot0_def)

subsection \<open>Identifier assignment (C2)\<close>

text \<open>
  C2. For every build and every list of other builds, \<^verbatim>\<open>AssignID\<close> sets each of
  GlobalID, RunnerID and ProjectRunnerID to the smallest non-negative integer not used in
  its scope: all other builds; those with the same runner short description; those with
  the same short description and the same project.
\<close>

theorem AssignID_smallest_unused:
  "smallest_unused (GlobalID (AssignID X b others)) (GlobalID ` set others) \<and>
   smallest_unused (RunnerID (AssignID X b others))
     (RunnerID ` {ob \<in> set others.
        ShortDescription X (Runner ob) = ShortDescription X (Runner b)}) \<and>
   smallest_unused (ProjectRunnerID (AssignID X b others))
     (ProjectRunnerID ` {ob \<in> set others.
        ShortDescription X (Runner ob) = ShortDescription X (Runner b)
        \<and> ProjectID ob = ProjectID b})"
proof -
  obtain g r p where c: "collect_ids X b others ([], [], []) = (g, r, p)"
    by (cases "collect_ids X b others ([], [], [])") auto
  from collect_ids_flags[OF c]
  have g: "{k. flag g k} = GlobalID ` set others"
    and r: "{k. flag r k} = RunnerID ` {ob \<in> set others.
              ShortDescription X (Runner ob) = ShortDescription X (Runner b)}"
    and p: "{k. flag p k} = ProjectRunnerID ` {ob \<in> set others.
              ShortDescription X (Runner ob) = ShortDescription X (Runner b)
              \<and> ProjectID ob = ProjectID b}"
    by (simp_all add: flag_Nil set_eq_iff)
  show ?thesis
    using first_free_smallest_unused[of g] first_free_smallest_unused[of r]
      first_free_smallest_unused[of p]
    by (simp add: AssignID_def c g r p)
qed

text \<open>
  Example for C2: two other builds, with global identifiers 0 and 1; only the first is on
  the same runner and project, with runner and project-runner identifier 0.
\<close>

theorem AssignID_smallest_unused_witness:
  "smallest_unused (GlobalID (AssignID X0 (build0\<lparr>ID := 9\<rparr>) others0)) (GlobalID ` set others0) \<and>
   GlobalID (AssignID X0 (build0\<lparr>ID := 9\<rparr>) others0) = 2 \<and>
   RunnerID (AssignID X0 (build0\<lparr>ID := 9\<rparr>) others0) = 1 \<and>
   ProjectRunnerID (AssignID X0 (build0\<lparr>ID := 9\<rparr>) others0) = 1"
  using AssignID_smallest_unused[of X0 "build0\<lparr>ID := 9\<rparr>" others0]
  by (simp add: AssignID_def others0_def build0_def runner0_def runner1_def X0_def Let_def
        set_flag_def flag_def first_free.simps)

subsection \<open>The feeder and \<^verbatim>\<open>CanCreate\<close> (C3)\<close>

text \<open>
  C3, as amended. One pass of the feeder runs \<^verbatim>\<open>feedRunner\<close> on every runner of the
  configured list, in order. \<^verbatim>\<open>feedRunner\<close> skips a runner exactly when the runner is unhealthy
  or no provider is registered for its executor. Whenever a provider is found for a
  healthy runner, \<^verbatim>\<open>Acquire\<close> is called, whatever \<^verbatim>\<open>CanCreate\<close> would answer, and
  a slot is sent if \<^verbatim>\<open>Acquire\<close> succeeds (a warning is logged if it fails).
\<close>

theorem feedRunner_acquires_without_CanCreate:
  "feedRunners_pass X isHealthy GetExecutor runners
     = concat (map (feedRunner X isHealthy GetExecutor) runners) \<and>
   (feedRunner X isHealthy GetExecutor runner = [] \<longleftrightarrow>
      \<not> isHealthy (UniqueID X runner) \<or> GetExecutor (Executor runner) = None) \<and>
   (\<forall>p. isHealthy (UniqueID X runner) \<and> GetExecutor (Executor runner) = Some p \<longrightarrow>
      feedRunner X isHealthy GetExecutor runner =
        ProviderAcquire p runner #
          (case Acquire p of
             Inl err \<Rightarrow> [LogWarning]
           | Inr d \<Rightarrow> [ChanSend \<lparr>runnerConfig = runner, provider = p, data = d\<rparr>]))"
  by (auto simp: feedRunners_pass_eq feedRunner_def split: option.splits sum.splits)

text \<open>Example for C3: a healthy runner whose provider is registered and acquires.\<close>

theorem feedRunner_acquires_without_CanCreate_witness:
  "(\<lambda>k. if k = ''docker'' then Some provider0 else None) (Executor runner0) = Some provider0 \<and>
   feedRunner X0 (\<lambda>id. True) (\<lambda>k. if k = ''docker'' then Some provider0 else None) runner0
     = [ProviderAcquire provider0 runner0, ChanSend slot0]"
  using feedRunner_acquires_without_CanCreate
          [of X0 "\<lambda>id. True" "\<lambda>k. if k = ''docker'' then Some provider0 else None" "[runner0]"
              runner0]
  by (simp add: runner0_def provider0_def slot0_def)

text \<open>
  Counterexample to C3 as stated: the provider's \<^verbatim>\<open>CanCreate\<close> answers false, yet
  \<^verbatim>\<open>feedRunner\<close> calls \<^verbatim>\<open>Acquire\<close> and sends the slot.
\<close>

theorem feedRunner_CanCreate_counterexample:
  "\<not> CanCreate exhausted0 \<and>
   feedRunner X0 (\<lambda>id. True) (\<lambda>k. if k = ''docker'' then Some exhausted0 else None) runner0
     = [ProviderAcquire exhausted0 runner0,
        ChanSend \<lparr>runnerConfig = runner0, provider = exhausted0, data = 2\<rparr>]"
  by (simp add: feedRunner_def exhausted0_def runner0_def)

subsection \<open>The executor protocol (C4)\<close>

text \<open>
  C4. When an executor is found, \<^verbatim>\<open>Run\<close> calls Prepare, then Start only if Prepare
  succeeded, then Wait only if Start succeeded as well; it then calls Finish exactly once
  with the first error of the three steps (nil when all succeeded), then Cleanup exactly
  once, and returns that same error.
\<close>

theorem Run_protocol:
  "Run (Some ex) executor_kind =
     (first_error ex,
      [CallPrepare]
      @ (if Prepare ex = None then [CallStart] else [])
      @ (if Prepare ex = None \<and> Start ex = None then [CallWait] else [])
      @ [CallFinish (first_error ex), CallCleanup])"
  by (simp add: Run_def first_error_def Let_def split: option.splits)

text \<open>Example for C4: Prepare succeeds and Start fails, so Wait is not called.\<close>

theorem Run_protocol_witness:
  "Run (Some \<lparr>Prepare = None, Start = Some ''no shell'', Wait = None\<rparr>) ''shell'' =
     (Some ''no shell'',
      [CallPrepare, CallStart, CallFinish (Some ''no shell''), CallCleanup])"
  using Run_protocol[of "\<lparr>Prepare = None, Start = Some ''no shell'', Wait = None\<rparr>" "''shell''"]
  by (simp add: first_error_def)

subsection \<open>The deferred \<^verbatim>\<open>trace.Fail\<close> (C5)\<close>

text \<open>
  C5, evaluated where the code departs from it. The job is obtained and
  \<^verbatim>\<open>build.Run\<close> fails with \<^verbatim>\<open>exit status 1\<close>. \<^verbatim>\<open>processRunner\<close> returns that error,
  but the one \<^verbatim>\<open>trace.Fail\<close> call it makes carries \<^verbatim>\<open>nil\<close>: the argument of the
  deferred call was evaluated when the \<^verbatim>\<open>defer\<close> statement ran, before the build.
\<close>

theorem processRunner_TraceFail_nil:
  "fst (processRunner X0 job_fails slot0) = Some ''exit status 1'' \<and>
   filter is_TraceFail (snd (processRunner X0 job_fails slot0)) = [TraceFail None]"
  by (simp add: processRunner_def job_fails_def Let_def)

subsection \<open>Configuration reload (C6)\<close>

text \<open>
  C6. When the configuration file can be examined, \<^verbatim>\<open>checkConfig\<close> reloads if and
  only if the file's modification time is strictly after the stored \<^verbatim>\<open>ModTime\<close>.
  If it is not after, nothing is read and the command is unchanged. If it is after and
  the file parses, the fresh configuration replaces the old one (with the user
  override) and the health map is cleared. If it is after and the file does not parse,
  the error is logged and returned and the prior configuration is kept except that its
  \<^verbatim>\<open>ModTime\<close> becomes the file's modification time; a following \<^verbatim>\<open>checkConfig\<close>
  on the unchanged file then reads nothing and changes nothing, whatever the file would
  parse to.
\<close>

theorem checkConfig_reload:
  "checkConfig (Inr mtime) parsed mr =
     (if ModTime (config mr) < mtime
      then (case parsed of
              Inl err \<Rightarrow>
                (Some err, mr\<lparr>config := (config mr)\<lparr>ModTime := mtime\<rparr>\<rparr>,
                 [ReadConfigFile, LogFailedToLoad err])
            | Inr fresh \<Rightarrow>
                (None,
                 mr\<lparr>config := (if User mr \<noteq> [] then fresh\<lparr>ConfigUser := User mr\<rparr> else fresh),
                    healthy := []\<rparr>,
                 [ReadConfigFile, LogConfigLoaded]))
      else (None, mr, [])) \<and>
   (ReadConfigFile \<in> set (snd (snd (checkConfig (Inr mtime) parsed mr)))
      \<longleftrightarrow> ModTime (config mr) < mtime) \<and>
   (ModTime (config mr) < mtime \<and> isl parsed \<longrightarrow>
      checkConfig (Inr mtime) parsed' (fst (snd (checkConfig (Inr mtime) parsed mr)))
        = (None, fst (snd (checkConfig (Inr mtime) parsed mr)), []))"
  by (cases parsed)
     (simp_all add: checkConfig_def loadConfig_def configOptions_loadConfig_def Let_def)

text \<open>
  Example for C6: the stored time is 10, the file's is 20 and the file does not parse.
  The file is read once; the stored time becomes 20 and the next check does nothing.
\<close>

theorem checkConfig_reload_witness:
  "ModTime (config mr0) < 20 \<and> isl (Inl ''bad toml'' :: error + Config) \<and>
   checkConfig (Inr 20) (Inl ''bad toml'') mr0 =
     (Some ''bad toml'', mr0\<lparr>config := (config mr0)\<lparr>ModTime := 20\<rparr>\<rparr>,
      [ReadConfigFile, LogFailedToLoad ''bad toml'']) \<and>
   checkConfig (Inr 20) (Inl ''bad toml'') (mr0\<lparr>config := (config mr0)\<lparr>ModTime := 20\<rparr>\<rparr>) =
     (None, mr0\<lparr>config := (config mr0)\<lparr>ModTime := 20\<rparr>\<rparr>, [])"
  using checkConfig_reload[of 20 "Inl ''bad toml''" mr0 "Inl ''bad toml''"]
  by (simp add: mr0_def checkConfig_def loadConfig_def configOptions_loadConfig_def)

subsection \<open>Forced shutdown (C7)\<close>

text \<open>
  C7, as amended. After starting the abort pump, \<^verbatim>\<open>handleShutdown\<close> returns nil when
  \<^verbatim>\<open>runFinished\<close> is received; when another stop signal arrives it records the signal
  and returns the error \<^verbatim>\<open>forced exit: \<close> followed by the signal; when the timeout
  elapses it returns the error whose message is \<^verbatim>\<open>shutdown timedout\<close>.
\<close>

theorem handleShutdown_cases:
  "handleShutdown X RunFinished mr = (None, mr, [GoAbortAllBuilds]) \<and>
   handleShutdown X (StopSignals s) mr =
     (Some (''forced exit: '' @ Signal_String X s), mr\<lparr>stopSignal := Some s\<rparr>,
      [GoAbortAllBuilds]) \<and>
   handleShutdown X TimeAfter mr = (Some ''shutdown timedout'', mr, [GoAbortAllBuilds])"
  by (simp add: handleShutdown_def)

text \<open>Example for C7: an interrupt arrives during the forced phase.\<close>

theorem handleShutdown_cases_witness:
  "fst (handleShutdown X0 (StopSignals Interrupt) mr0) = Some ''forced exit: interrupt''"
  using handleShutdown_cases[of X0 mr0 Interrupt]
  by (simp add: X0_def)

text \<open>
  Counterexample to C7 as stated: on timeout the error returned is not one with the
  message \<^verbatim>\<open>shutdown timed out\<close>.
\<close>

theorem handleShutdown_timeout_counterexample:
  "fst (handleShutdown X0 TimeAfter mr0) \<noteq> Some ''shutdown timed out'' \<and>
   fst (handleShutdown X0 TimeAfter mr0) = Some ''shutdown timedout''"
  by (simp add: handleShutdown_def)

subsection \<open>The project directory (C8)\<close>

text \<open>
  C8. For every build, the name returned by \<^verbatim>\<open>ProjectUniqueDir(false)\<close> does not
  contain \<^verbatim>\<open>..\<close>. \<^verbatim>\<open>ProjectSlug\<close> returns an error exactly when the URL does not
  parse, has an empty host, cleans to \<^verbatim>\<open>.\<close> or still contains \<^verbatim>\<open>..\<close>; on an error
  \<^verbatim>\<open>ProjectUniqueDir\<close> falls back to \<^verbatim>\<open>project-\<close> followed by the project ID.
\<close>

theorem ProjectUniqueDir_no_dotdot:
  "\<not> Contains (ProjectUniqueDir X b False) ''..'' \<and>
   (isl (ProjectSlug X b) \<longleftrightarrow> slug_rejected X b) \<and>
   (isl (ProjectSlug X b) \<longrightarrow>
      ProjectUniqueDir X b False = ''project-'' @ Sprintf_d (ProjectID b))"
proof (intro conjI)
  show "\<not> Contains (ProjectUniqueDir X b False) ''..''"
  proof (cases "ProjectSlug X b")
    case (Inl e)
    then have "ProjectUniqueDir X b False = ''project-'' @ Sprintf_d (ProjectID b)"
      by (simp add: ProjectUniqueDir_def)
    then show ?thesis
      by (simp only: fallback_no_dotdot not_False_eq_True)
  next
    case (Inr slug)
    then have "\<not> Contains slug ''..''"
      by (auto simp: ProjectSlug_def Let_def split: sum.splits if_splits)
    with Inr show ?thesis by (simp add: ProjectUniqueDir_def)
  qed
  show "isl (ProjectSlug X b) \<longleftrightarrow> slug_rejected X b"
    by (simp add: ProjectSlug_def slug_rejected_def Let_def split: sum.splits)
  show "isl (ProjectSlug X b) \<longrightarrow>
      ProjectUniqueDir X b False = ''project-'' @ Sprintf_d (ProjectID b)"
    by (cases "ProjectSlug X b") (simp_all add: ProjectUniqueDir_def)
qed

text \<open>
  Example for C8: the repository path \<^verbatim>\<open>/group/my..project.git\<close> keeps its \<^verbatim>\<open>..\<close>
  after cleaning, so the slug is refused and the directory is \<^verbatim>\<open>project-42\<close>.
\<close>

theorem ProjectUniqueDir_no_dotdot_witness:
  "isl (ProjectSlug X0 build0) \<and> slug_rejected X0 build0 \<and>
   ProjectUniqueDir X0 build0 False = ''project-42'' \<and>
   \<not> Contains (ProjectUniqueDir X0 build0 False) ''..''"
  using ProjectUniqueDir_no_dotdot[of X0 build0]
  by (simp add: ProjectSlug_def slug_rejected_def X0_def build0_def TrimSuffix_def Let_def
        Sprintf_d_def digits.simps)

subsection \<open>The archive that is up to date (C9)\<close>

text \<open>
  C9, as amended. When the working directory is known and the archive file (named by a
  non-empty \<^verbatim>\<open>File\<close>) exists, \<^verbatim>\<open>Execute\<close> only reports that the archive is up to
  date, calling neither \<^verbatim>\<open>listFiles\<close> nor \<^verbatim>\<open>archive\<close>, if and only if no collected
  file has a modification time strictly after the archive's, that is, if and only if
  \<^verbatim>\<open>isChanged\<close> is false over the collected files. When some file is newer, it prints
  the files if listing is asked for (and not verbose); otherwise it calls
  \<^verbatim>\<open>archive\<close>, which puts a new archive in place exactly when the temporary file can
  be created, the file name ends in \<^verbatim>\<open>.tgz\<close>, \<^verbatim>\<open>.tar.gz\<close> or \<^verbatim>\<open>.zip\<close>, and
  writing and renaming succeed; when the temporary file or the archive cannot be created
  the process ends with a fatal error and nothing is built.
\<close>

theorem Execute_up_to_date:
  assumes "getwd = Inr wd" and "File c \<noteq> []"
  shows "(Execute c getwd collected (Exists ai) fs = [LogUpToDate]
          \<longleftrightarrow> \<not> (\<exists>(path, info) \<in> set collected. modTime ai < modTime info)) \<and>
         (isChanged (c\<lparr>files := collected\<rparr>) (modTime ai)
          \<longleftrightarrow> (\<exists>(path, info) \<in> set collected. modTime ai < modTime info)) \<and>
         (PrintFiles \<in> set (Execute c getwd collected (Exists ai) fs)
          \<longleftrightarrow> (\<exists>(path, info) \<in> set collected. modTime ai < modTime info)
              \<and> ListFlag c \<and> \<not> Verbose c) \<and>
         (Renamed \<in> set (Execute c getwd collected (Exists ai) fs)
          \<longleftrightarrow> (\<exists>(path, info) \<in> set collected. modTime ai < modTime info)
              \<and> \<not> (ListFlag c \<and> \<not> Verbose c)
              \<and> \<not> isl (TempFile fs)
              \<and> (isTarArchive (File c) \<or> isZipArchive (File c))
              \<and> archiver fs = None \<and> Rename fs = None) \<and>
         ((\<exists>(path, info) \<in> set collected. modTime ai < modTime info)
            \<and> \<not> (ListFlag c \<and> \<not> Verbose c)
          \<longrightarrow> (case TempFile fs of
                 Inl err \<Rightarrow>
                   last (Execute c getwd collected (Exists ai) fs) = FatalTempFile err
               | Inr tempName \<Rightarrow>
                   if \<not> isTarArchive (File c) \<and> \<not> isZipArchive (File c)
                   then last (Execute c getwd collected (Exists ai) fs)
                          = FatalCreateArchive (UnsupportedFormat (File c))
                   else (case archiver fs of
                           Some err \<Rightarrow>
                             last (Execute c getwd collected (Exists ai) fs)
                               = FatalCreateArchive (ArchiverFailed err)
                         | None \<Rightarrow>
                             last (Execute c getwd collected (Exists ai) fs) = CloseTemp)))"
proof -
  let ?changed = "\<exists>(path, info) \<in> set collected. modTime ai < modTime info"
  have ch: "isChanged (c\<lparr>files := collected\<rparr>) (modTime ai) \<longleftrightarrow> ?changed"
    by (auto simp: isChanged_def list_ex_iff)
  have ne: "?changed \<Longrightarrow> collected \<noteq> []"
    by auto
  show ?thesis
  proof (cases ?changed)
    case False
    with assms show ?thesis
      by (simp add: Execute_def isChanged_def list_ex_iff Let_def)
  next
    case True
    note ne[OF True]
    with True assms show ?thesis
      by (cases "TempFile fs"; cases "archiver fs"; cases "Rename fs")
         (auto simp: Execute_def isChanged_def list_ex_iff listFiles_def archive_def
               createArchive_def Let_def)
  qed
qed

text \<open>
  Example for C9: the archive \<^verbatim>\<open>cache.tgz\<close> dates from time 100 and one collected file
  from 150, so the archive is written again and renamed into place.
\<close>

theorem Execute_up_to_date_witness:
  "(Inr ''/builds'' :: error + string) = Inr ''/builds'' \<and> File archive0 \<noteq> [] \<and>
   Execute archive0 (Inr ''/builds'') newer_files (Exists old_archive) fs_ok
     = [MkdirAll, WriteTar, CloseTemp, Renamed, RemoveTemp, CloseTemp] \<and>
   Execute archive0 (Inr ''/builds'') [] (Exists old_archive) fs_ok = [LogUpToDate]"
  using Execute_up_to_date[of "Inr ''/builds''" "''/builds''" archive0 newer_files old_archive fs_ok]
    Execute_up_to_date[of "Inr ''/builds''" "''/builds''" archive0 "[]" old_archive fs_ok]
  by (simp add: Execute_def archive0_def newer_files_def old_archive_def fs_ok_def isChanged_def
        archive_def createArchive_def isTarArchive_def suffix_to_prefix Let_def)

text \<open>
  Counterexample to C9 as stated: the archive \<^verbatim>\<open>cache.bin\<close> exists and a collected file
  is newer, yet \<^verbatim>\<open>Execute\<close> neither lists nor builds: \<^verbatim>\<open>createArchive\<close> refuses the
  format and the process ends with a fatal error.
\<close>

theorem Execute_unsupported_format_counterexample:
  "(\<exists>(path, info) \<in> set newer_files. modTime old_archive < modTime info) \<and>
   Execute (archive0\<lparr>File := ''cache.bin''\<rparr>) (Inr ''/builds'') newer_files (Exists old_archive) fs_ok
     = [MkdirAll, FatalCreateArchive (UnsupportedFormat ''cache.bin'')] \<and>
   PrintFiles \<notin> set (Execute (archive0\<lparr>File := ''cache.bin''\<rparr>) (Inr ''/builds'') newer_files
                        (Exists old_archive) fs_ok) \<and>
   Renamed \<notin> set (Execute (archive0\<lparr>File := ''cache.bin''\<rparr>) (Inr ''/builds'') newer_files
                     (Exists old_archive) fs_ok)"
  by (simp add: Execute_def archive0_def newer_files_def old_archive_def fs_ok_def isChanged_def
        archive_def createArchive_def isTarArchive_def isZipArchive_def suffix_to_prefix Let_def)

subsection \<open>The generated script (C10)\<close>

text \<open>
  C10. \<^verbatim>\<open>GenerateCommands\<close> writes the exports and the change of directory and then,
  for each piece of the trimmed \<^verbatim>\<open>build.Commands\<close> split at newlines, a notice
  \<^verbatim>\<open>$ command\<close> if the trimmed piece is not empty and an empty line otherwise, the
  trimmed piece as a line, and an error check. So every line is directly followed by
  one error check, no error check stands elsewhere, and there are as many lines and as
  many error checks as pieces.
\<close>

theorem GenerateCommands_lines:
  "GenerateCommands X variables w build =
     w @ map Variable variables @ [Cd (FullProjectDir X build)]
       @ concat (map (line_block X) (Split_newline (TrimSpace X (Commands build)))) \<and>
   checked_lines (GenerateCommands X variables [] build) \<and>
   length (filter is_Line (GenerateCommands X variables [] build))
     = length (Split_newline (TrimSpace X (Commands build))) \<and>
   length (filter (\<lambda>c. c = CheckForErrors) (GenerateCommands X variables [] build))
     = length (Split_newline (TrimSpace X (Commands build)))"
  by (simp add: GenerateCommands_def writeCdBuildDir_def writeExports_eq write_lines_eq Let_def
        checked_lines_Variable checked_lines_blocks count_blocks)

text \<open>Example for C10: a script of two commands with a blank line between them.\<close>

theorem GenerateCommands_lines_witness:
  "GenerateCommands X0 [variable0] []
     (build0\<lparr>Commands := '' make '' @ [CHR 0x0A, CHR 0x0A] @ ''make test'' @ [CHR 0x0A]\<rparr>) =
     [Variable variable0, Cd ''/builds/group/project'',
      Notice ''$ %s'' [''make''], Line ''make'', CheckForErrors,
      EmptyLine, Line [], CheckForErrors,
      Notice ''$ %s'' [''make test''], Line ''make test'', CheckForErrors]"
  using GenerateCommands_lines[of X0 "[variable0]" "[]"
          "build0\<lparr>Commands := '' make '' @ [CHR 0x0A, CHR 0x0A] @ ''make test'' @ [CHR 0x0A]\<rparr>"]
  by (simp add: X0_def build0_def FullProjectDir_def line_block_def trim_ascii_def Let_def)

end
